theory Spec2Isabelle
  imports Complex_Main "HOL-Library.AList"
begin

section \<open>Values, tokens and arrays\<close>

text \<open>
  The clustering engine (the second module of \<^verbatim>\<open>src/core/types.ts\<close>, from
  \<^verbatim>\<open>SENTINEL\<close> on).  JavaScript numbers are modelled as exact reals: rounding of
  IEEE doubles is not part of the model.  A row of the input holds strings or, where the
  caller passes numeric rows, numbers; \<^verbatim>\<open>null\<close>/\<^verbatim>\<open>undefined\<close> is \<open>None\<close>.
\<close>

datatype jsval = JStr string | JNum real

type_synonym cell = "jsval option"
type_synonym Sequence = "cell list"
type_synonym SequenceData = "Sequence list"

text \<open>Reading an array: an index past the end yields \<^verbatim>\<open>undefined\<close> (\<open>None\<close>).\<close>

definition aget :: "'a list \<Rightarrow> nat \<Rightarrow> 'a option" where
  "aget xs i = (if i < length xs then Some (xs ! i) else None)"

text \<open>\<^verbatim>\<open>lenA ?? a.length\<close>\<close>

definition len_or :: "nat option \<Rightarrow> 'a list \<Rightarrow> nat" where
  "len_or len xs = (case len of None \<Rightarrow> length xs | Some l \<Rightarrow> l)"

definition min3 :: "real \<Rightarrow> real \<Rightarrow> real \<Rightarrow> real" where
  "min3 x y z = min x (min y z)"

definition min4 :: "real \<Rightarrow> real \<Rightarrow> real \<Rightarrow> real \<Rightarrow> real" where
  "min4 w x y z = min w (min x (min y z))"

text \<open>\<^verbatim>\<open>d[i][j] = v\<close> on an array of arrays.\<close>

definition set2 :: "'a list list \<Rightarrow> nat \<Rightarrow> nat \<Rightarrow> 'a \<Rightarrow> 'a list list" where
  "set2 d i j v = d[i := (d ! i)[j := v]]"

text \<open>\<^verbatim>\<open>Math.exp\<close> and \<^verbatim>\<open>Math.sqrt\<close>, on reals.\<close>

definition Math_exp :: "real \<Rightarrow> real" where [code del]:
  "Math_exp x = exp x"

definition Math_sqrt :: "real \<Rightarrow> real" where [code del]:
  "Math_sqrt x = sqrt x"

definition SENTINEL :: jsval where
  "SENTINEL = JStr (CHR 0x00 # ''__NA__'')"

section \<open>Sequence normalizer\<close>

definition toTokenLists :: "SequenceData \<Rightarrow> string list \<Rightarrow> jsval list list" where
  "toTokenLists data naSyms =
     map (\<lambda>row. map (\<lambda>val.
        case val of
          None \<Rightarrow> SENTINEL
        | Some v \<Rightarrow>
            if v = JStr [] then SENTINEL
            else if v \<in> set (map JStr naSyms) then SENTINEL
            else v) row) data"

definition effectiveLength :: "jsval list \<Rightarrow> nat" where
  "effectiveLength seq =
     fold (\<lambda>i last. if seq ! i \<noteq> SENTINEL then i + 1 else last) [0..<length seq] 0"

section \<open>Dissimilarity library\<close>

definition hammingDistance :: "jsval list \<Rightarrow> jsval list \<Rightarrow> bool \<Rightarrow> real \<Rightarrow> real" where
  "hammingDistance a b weighted lambda =
     (let maxLen = max (length a) (length b);
          aPad = a @ replicate (maxLen - length a) SENTINEL;
          bPad = b @ replicate (maxLen - length b) SENTINEL
      in fold (\<lambda>i acc.
            if aPad ! i \<noteq> bPad ! i
            then acc + (if weighted then Math_exp (- lambda * real i) else 1)
            else acc) [0..<maxLen] 0)"

subsection \<open>Levenshtein (inverted substitution cost: match 1, mismatch 0)\<close>

definition lv_cost :: "jsval list \<Rightarrow> jsval list \<Rightarrow> nat \<Rightarrow> nat \<Rightarrow> real" where
  "lv_cost a b i j = (if aget a (i - 1) = aget b (j - 1) then 1 else 0)"

definition lv_row :: "jsval list \<Rightarrow> jsval list \<Rightarrow> nat \<Rightarrow> nat \<Rightarrow> real list \<Rightarrow> real list \<Rightarrow> real list" where
  "lv_row a b n i prev cur =
     fold (\<lambda>j cur.
        cur[j := min3 (prev ! j + 1) (cur ! (j - 1) + 1) (prev ! (j - 1) + lv_cost a b i j)])
       [1..<n + 1] (cur[0 := real i])"

definition levenshteinDistance ::
  "jsval list \<Rightarrow> jsval list \<Rightarrow> nat option \<Rightarrow> nat option \<Rightarrow> real" where
  "levenshteinDistance a b lenA lenB =
     (let m = len_or lenA a; n = len_or lenB b;
          prev0 = map real [0..<n + 1];
          cur0 = replicate (n + 1) 0;
          (prev, cur) = fold (\<lambda>i (prev, cur). (lv_row a b n i prev cur, prev))
                           [1..<m + 1] (prev0, cur0)
      in prev ! n)"

subsection \<open>Optimal string alignment (same inverted cost)\<close>

definition osa_cell :: "jsval list \<Rightarrow> jsval list \<Rightarrow> nat \<Rightarrow> nat \<Rightarrow> real list list \<Rightarrow> real list list" where
  "osa_cell a b i j d =
     (let cost = lv_cost a b i j;
          d1 = set2 d i j (min3 (d ! (i - 1) ! j + 1) (d ! i ! (j - 1) + 1)
                                (d ! (i - 1) ! (j - 1) + cost))
      in if i > 1 \<and> j > 1 \<and> aget a (i - 1) = aget b (j - 2) \<and> aget a (i - 2) = aget b (j - 1)
         then set2 d1 i j (min (d1 ! i ! j) (d1 ! (i - 2) ! (j - 2) + cost))
         else d1)"

definition osa_init :: "nat \<Rightarrow> nat \<Rightarrow> real list list" where
  "osa_init m n =
     (let d0 = replicate (m + 1) (replicate (n + 1) 0);
          d1 = fold (\<lambda>i d. set2 d i 0 (real i)) [0..<m + 1] d0
      in fold (\<lambda>j d. set2 d 0 j (real j)) [0..<n + 1] d1)"

definition osaDistance ::
  "jsval list \<Rightarrow> jsval list \<Rightarrow> nat option \<Rightarrow> nat option \<Rightarrow> real" where
  "osaDistance a b lenA lenB =
     (let m = len_or lenA a; n = len_or lenB b
      in if m = 0 then real n
         else if n = 0 then real m
         else
           (let d = fold (\<lambda>i d. fold (\<lambda>j d. osa_cell a b i j d) [1..<n + 1] d)
                      [1..<m + 1] (osa_init m n)
            in d ! m ! n))"

subsection \<open>Damerau-Levenshtein (conventional cost, last-seen table)\<close>

text \<open>
  \<^verbatim>\<open>da\<close> is a \<^verbatim>\<open>Map\<close> keyed by the token read from the array, so a read past the
  end (\<^verbatim>\<open>undefined\<close>) is a key as well.
\<close>

definition dl_init :: "nat \<Rightarrow> nat \<Rightarrow> real list list" where
  "dl_init m n =
     (let maxDist = real (m + n);
          d0 = replicate (m + 2) (replicate (n + 2) 0);
          d1 = set2 d0 0 0 maxDist;
          d2 = fold (\<lambda>i d. set2 (set2 d (i + 1) 0 maxDist) (i + 1) 1 (real i)) [0..<m + 1] d1
      in fold (\<lambda>j d. set2 (set2 d 0 (j + 1) maxDist) 1 (j + 1) (real j)) [0..<n + 1] d2)"

definition dl_cell ::
  "jsval list \<Rightarrow> jsval list \<Rightarrow> (jsval option \<Rightarrow> nat option) \<Rightarrow> nat \<Rightarrow> nat \<Rightarrow>
   real list list \<times> nat \<Rightarrow> real list list \<times> nat" where
  "dl_cell a b da i j st =
     (let d = fst st; db = snd st;
          i1 = (case da (aget b (j - 1)) of None \<Rightarrow> 0 | Some r \<Rightarrow> r);
          j1 = db;
          cost = (if aget a (i - 1) = aget b (j - 1) then 0 else 1 :: real);
          db' = (if cost = 0 then j else db)
      in (set2 d (i + 1) (j + 1)
            (min4 (d ! i ! j + cost)
                  (d ! (i + 1) ! j + 1)
                  (d ! i ! (j + 1) + 1)
                  (d ! i1 ! j1 + (real i - real i1 - 1) + 1 + (real j - real j1 - 1))),
          db'))"

definition dl_row ::
  "jsval list \<Rightarrow> jsval list \<Rightarrow> nat \<Rightarrow> nat \<Rightarrow>
   real list list \<times> (jsval option \<Rightarrow> nat option) \<Rightarrow> real list list \<times> (jsval option \<Rightarrow> nat option)" where
  "dl_row a b n i st =
     (let d = fst st; da = snd st;
          d' = fst (fold (\<lambda>j s. dl_cell a b da i j s) [1..<n + 1] (d, 0))
      in (d', da(aget a (i - 1) \<mapsto> i)))"

definition dlDistance ::
  "jsval list \<Rightarrow> jsval list \<Rightarrow> nat option \<Rightarrow> nat option \<Rightarrow> real" where
  "dlDistance a b lenA lenB =
     (let m = len_or lenA a; n = len_or lenB b
      in if m = 0 then real n
         else if n = 0 then real m
         else
           (let d = fst (fold (\<lambda>i st. dl_row a b n i st) [1..<m + 1] (dl_init m n, Map.empty))
            in d ! (m + 1) ! (n + 1)))"

subsection \<open>Longest common subsequence distance\<close>

definition lcs_row :: "jsval list \<Rightarrow> jsval list \<Rightarrow> nat \<Rightarrow> nat \<Rightarrow> real list \<Rightarrow> real list \<Rightarrow> real list" where
  "lcs_row a b n i prev cur =
     fold (\<lambda>j cur.
        if aget a (i - 1) = aget b (j - 1)
        then cur[j := prev ! (j - 1) + 1]
        else cur[j := max (prev ! j) (cur ! (j - 1))])
       [1..<n + 1] cur"

definition lcsDistance ::
  "jsval list \<Rightarrow> jsval list \<Rightarrow> nat option \<Rightarrow> nat option \<Rightarrow> real" where
  "lcsDistance a b lenA lenB =
     (let m = len_or lenA a; n = len_or lenB b;
          (prev, cur) = fold (\<lambda>i (prev, cur). (lcs_row a b n i prev cur, replicate (n + 1) 0))
                           [1..<m + 1] (replicate (n + 1) 0, replicate (n + 1) 0)
      in real (max m n) - prev ! n)"

subsection \<open>Q-gram profiles: q-gram, cosine and Jaccard distances\<close>

text \<open>
  A profile is a \<^verbatim>\<open>Map\<close> in insertion order.  Its key is the text of the gram
  \<^verbatim>\<open>seq.slice(i, i + q).join('\0')\<close>; the model keeps the slice itself as the key
  (for \<open>q = 1\<close>, the only value the engine uses, the text of a one-token gram is that
  token).
\<close>

type_synonym profile = "(jsval list \<times> real) list"

definition pget :: "profile \<Rightarrow> jsval list \<Rightarrow> real" where
  "pget p key = (case map_of p key of None \<Rightarrow> 0 | Some c \<Rightarrow> c)"

definition getQgrams :: "jsval list \<Rightarrow> nat option \<Rightarrow> nat \<Rightarrow> profile" where
  "getQgrams seq len q =
     (let n = len_or len seq
      in fold (\<lambda>i profile.
            let gram = take q (drop i seq)
            in AList.update gram (pget profile gram + 1) profile) [0..<n + 1 - q] [])"

text \<open>\<^verbatim>\<open>new Set([...xs])\<close>: the first occurrence of each key, in order.\<close>

definition uniq :: "'a list \<Rightarrow> 'a list" where
  "uniq xs = rev (remdups (rev xs))"

definition qgramDistance ::
  "jsval list \<Rightarrow> jsval list \<Rightarrow> nat option \<Rightarrow> nat option \<Rightarrow> real" where
  "qgramDistance a b lenA lenB =
     (let pa = getQgrams a lenA 1; pb = getQgrams b lenB 1;
          allKeys = uniq (map fst pa @ map fst pb)
      in fold (\<lambda>key acc. acc + \<bar>pget pa key - pget pb key\<bar>) allKeys 0)"

definition cosine_sums :: "profile \<Rightarrow> profile \<Rightarrow> jsval list list \<Rightarrow> real \<times> real \<times> real" where
  "cosine_sums pa pb allKeys =
     fold (\<lambda>key (dot, normA, normB).
        let va = pget pa key; vb = pget pb key
        in (dot + va * vb, normA + va * va, normB + vb * vb)) allKeys (0, 0, 0)"

definition cosineDistance ::
  "jsval list \<Rightarrow> jsval list \<Rightarrow> nat option \<Rightarrow> nat option \<Rightarrow> real" where
  "cosineDistance a b lenA lenB =
     (let pa = getQgrams a lenA 1; pb = getQgrams b lenB 1;
          allKeys = uniq (map fst pa @ map fst pb);
          (dot, normA, normB) = cosine_sums pa pb allKeys
      in if normA = 0 \<or> normB = 0 then 1
         else 1 - dot / (Math_sqrt normA * Math_sqrt normB))"

definition jaccardDistance ::
  "jsval list \<Rightarrow> jsval list \<Rightarrow> nat option \<Rightarrow> nat option \<Rightarrow> real" where
  "jaccardDistance a b lenA lenB =
     (let setA = uniq (map fst (getQgrams a lenA 1));
          setB = uniq (map fst (getQgrams b lenB 1));
          intersection = fold (\<lambda>key c. if key \<in> set setB then c + 1 else c) setA (0::nat);
          union = real (length setA) + real (length setB) - real intersection
      in if union = 0 then 0
         else 1 - real intersection / union)"

subsection \<open>Jaro / Jaro-Winkler\<close>

definition jw_match ::
  "jsval list \<Rightarrow> jsval list \<Rightarrow> nat \<Rightarrow> nat \<Rightarrow> nat \<Rightarrow>
   bool list \<times> bool list \<times> nat \<Rightarrow> bool list \<times> bool list \<times> nat" where
  "jw_match a b n matchWindow i st =
     (let (aMatched, bMatched, matches) = st;
          lo = nat (max 0 (int i - int matchWindow));
          hi = min (n - 1) (i + matchWindow)
      in (case find (\<lambda>j. \<not> bMatched ! j \<and> aget a i = aget b j) [lo..<hi + 1] of
            None \<Rightarrow> (aMatched, bMatched, matches)
          | Some j \<Rightarrow> (aMatched[i := True], bMatched[j := True], matches + 1)))"

text \<open>
  \<^verbatim>\<open>while (!bMatched[bIdx]) bIdx++\<close>: a read past the end is \<^verbatim>\<open>undefined\<close>, which
  keeps the loop going; the scan that never finds a marked position does not return.
\<close>

partial_function (option) jw_skip :: "bool list \<Rightarrow> nat \<Rightarrow> nat option" where
  "jw_skip bMatched bIdx =
     (if aget bMatched bIdx = Some True then Some bIdx else jw_skip bMatched (bIdx + 1))"

declare jw_skip.simps [code]

definition jw_transp ::
  "jsval list \<Rightarrow> jsval list \<Rightarrow> bool list \<Rightarrow> bool list \<Rightarrow> nat \<Rightarrow>
   (nat \<times> nat) option \<Rightarrow> (nat \<times> nat) option" where
  "jw_transp a b aMatched bMatched i st =
     (case st of
        None \<Rightarrow> None
      | Some (transpositions, bIdx) \<Rightarrow>
          if \<not> aMatched ! i then Some (transpositions, bIdx)
          else (case jw_skip bMatched bIdx of
                  None \<Rightarrow> None
                | Some bj \<Rightarrow>
                    Some (if aget a i \<noteq> aget b bj then transpositions + 1 else transpositions,
                          bj + 1)))"

definition jaroWinklerDistance ::
  "jsval list \<Rightarrow> jsval list \<Rightarrow> real \<Rightarrow> nat option \<Rightarrow> nat option \<Rightarrow> real option" where
  "jaroWinklerDistance a b p lenA lenB =
     (let m = len_or lenA a; n = len_or lenB b
      in if m = 0 \<and> n = 0 then Some 0
         else if m = 0 \<or> n = 0 then Some 1
         else
           (let matchWindow = nat (max 0 (int (max m n div 2) - 1));
                (aMatched, bMatched, matches) =
                   fold (jw_match a b n matchWindow) [0..<m]
                     (replicate m False, replicate n False, 0)
            in if matches = 0 then Some 1
               else
                 (case fold (jw_transp a b aMatched bMatched) [0..<m] (Some (0, 0)) of
                    None \<Rightarrow> None
                  | Some (transpositions, bIdx) \<Rightarrow>
                      let jaroSim = (real matches / real m + real matches / real n
                                     + (real matches - real transpositions / 2) / real matches) / 3
                      in if p = 0 then Some (1 - jaroSim)
                         else
                           (let maxPrefix = min 4 (min m n);
                                prefix = length (takeWhile (\<lambda>i. aget a i = aget b i) [0..<maxPrefix])
                            in Some (1 - (jaroSim + real prefix * p * (1 - jaroSim)))))))"

subsection \<open>The dispatch table\<close>

type_synonym DistFunc = "jsval list \<Rightarrow> jsval list \<Rightarrow> nat option \<Rightarrow> nat option \<Rightarrow> real option"

definition DISTANCE_FUNCS :: "string \<Rightarrow> DistFunc option" where
  "DISTANCE_FUNCS name =
     (if name = ''hamming'' then Some (\<lambda>a b lenA lenB. Some (hammingDistance a b False 1))
      else if name = ''lv'' then Some (\<lambda>a b lenA lenB. Some (levenshteinDistance a b lenA lenB))
      else if name = ''osa'' then Some (\<lambda>a b lenA lenB. Some (osaDistance a b lenA lenB))
      else if name = ''dl'' then Some (\<lambda>a b lenA lenB. Some (dlDistance a b lenA lenB))
      else if name = ''lcs'' then Some (\<lambda>a b lenA lenB. Some (lcsDistance a b lenA lenB))
      else if name = ''qgram'' then Some (\<lambda>a b lenA lenB. Some (qgramDistance a b lenA lenB))
      else if name = ''cosine'' then Some (\<lambda>a b lenA lenB. Some (cosineDistance a b lenA lenB))
      else if name = ''jaccard'' then Some (\<lambda>a b lenA lenB. Some (jaccardDistance a b lenA lenB))
      else if name = ''jw'' then Some (\<lambda>a b lenA lenB. jaroWinklerDistance a b 0 lenA lenB)
      else None)"

section \<open>Distance matrix builder\<close>

text \<open>
  Modelled from the spec: the \<^verbatim>\<open>Matrix\<close> class (\<^verbatim>\<open>core/matrix.js\<close>) is not among
  the sources.  The spec's distance matrix is a dense \<open>n \<times> n\<close> table of reals read
  with \<^verbatim>\<open>get(i, j)\<close>; the builder creates it with \<^verbatim>\<open>Matrix.zeros\<close> and writes it
  with \<^verbatim>\<open>set\<close>.  It is modelled as a list of rows.
\<close>

type_synonym Matrix = "real list list"

definition Matrix_zeros :: "nat \<Rightarrow> nat \<Rightarrow> Matrix" where
  "Matrix_zeros r c = replicate r (replicate c 0)"

definition mget :: "Matrix \<Rightarrow> nat \<Rightarrow> nat \<Rightarrow> real" where
  "mget M i j = M ! i ! j"

definition mset :: "Matrix \<Rightarrow> nat \<Rightarrow> nat \<Rightarrow> real \<Rightarrow> Matrix" where
  "mset M i j v = set2 M i j v"

definition rows :: "Matrix \<Rightarrow> nat" where
  "rows M = length M"

text \<open>
  Outcomes other than a returned value.  \<open>KTooSmall\<close>, \<open>KExceedsObservations\<close>,
  \<open>KExceedsSequences\<close> and \<open>UnknownDissimilarity\<close> are the four \<^verbatim>\<open>throw new Error\<close>
  of the source; \<open>TypeError\<close> is the runtime's error on indexing \<^verbatim>\<open>undefined\<close>;
  \<open>Diverges\<close> is a call that does not return.  \<open>NotANumber\<close>, \<open>BadIndex\<close> and
  \<open>InfiniteCost\<close> mark computations that leave the model of numbers as reals
  (\<^verbatim>\<open>NaN\<close>, \<^verbatim>\<open>dist.get(i, -1)\<close>, arithmetic on \<^verbatim>\<open>Infinity\<close>).
\<close>

datatype error =
    KTooSmall
  | KExceedsObservations int nat
  | KExceedsSequences int nat
  | UnknownDissimilarity string
  | TypeError
  | Diverges
  | NotANumber
  | BadIndex
  | InfiniteCost

text \<open>The loop over all pairs \<open>i < j\<close> shared by the three builders.\<close>

definition fill_cell :: "(nat \<Rightarrow> nat \<Rightarrow> error + real) \<Rightarrow> nat \<Rightarrow> nat \<Rightarrow> error + Matrix \<Rightarrow> error + Matrix" where
  "fill_cell f i j acc =
     (case acc of
        Inl e \<Rightarrow> Inl e
      | Inr dmat \<Rightarrow>
          (case f i j of
             Inl e \<Rightarrow> Inl e
           | Inr v \<Rightarrow> Inr (mset (mset dmat i j v) j i v)))"

definition fill_row :: "nat \<Rightarrow> (nat \<Rightarrow> nat \<Rightarrow> error + real) \<Rightarrow> nat \<Rightarrow> error + Matrix \<Rightarrow> error + Matrix" where
  "fill_row n f i acc = fold (fill_cell f i) [i + 1..<n] acc"

definition fill_pairs :: "nat \<Rightarrow> (nat \<Rightarrow> nat \<Rightarrow> error + real) \<Rightarrow> error + Matrix" where
  "fill_pairs n f = fold (fill_row n f) [0..<n] (Inr (Matrix_zeros n n))"

definition computeDistanceMatrix ::
  "jsval list list \<Rightarrow> string \<Rightarrow> bool \<Rightarrow> real \<Rightarrow> error + Matrix" where
  "computeDistanceMatrix sequences dissimilarity weighted lambda =
     (let n = length sequences
      in if dissimilarity = ''hamming''
         then fill_pairs n (\<lambda>i j.
                Inr (hammingDistance (sequences ! i) (sequences ! j) weighted lambda))
         else
           (case DISTANCE_FUNCS dissimilarity of
              None \<Rightarrow> Inl (UnknownDissimilarity dissimilarity)
            | Some func \<Rightarrow>
                let effLens = map effectiveLength sequences
                in fill_pairs n (\<lambda>i j.
                     case func (sequences ! i) (sequences ! j) (aget effLens i) (aget effLens j) of
                       None \<Rightarrow> Inl Diverges
                     | Some v \<Rightarrow> Inr v)))"

subsection \<open>Numeric distances\<close>

text \<open>
  \<^verbatim>\<open>a[i] - b[i]\<close> with \<^verbatim>\<open>b\<close> shorter than \<^verbatim>\<open>a\<close> reads \<^verbatim>\<open>undefined\<close> and the
  result is \<^verbatim>\<open>NaN\<close>, here \<open>None\<close>.
\<close>

definition euclideanDistance :: "real list \<Rightarrow> real list \<Rightarrow> real option" where
  "euclideanDistance a b =
     (if length a \<le> length b
      then Some (Math_sqrt (fold (\<lambda>i sum. let d = a ! i - b ! i in sum + d * d) [0..<length a] 0))
      else None)"

definition manhattanDistance :: "real list \<Rightarrow> real list \<Rightarrow> real option" where
  "manhattanDistance a b =
     (if length a \<le> length b
      then Some (fold (\<lambda>i sum. sum + \<bar>a ! i - b ! i\<bar>) [0..<length a] 0)
      else None)"

definition computeNumericDistanceMatrix :: "real list list \<Rightarrow> string \<Rightarrow> error + Matrix" where
  "computeNumericDistanceMatrix data metric =
     (let n = length data;
          func = (if metric = ''manhattan'' then manhattanDistance else euclideanDistance)
      in fill_pairs n (\<lambda>i j.
           case func (data ! i) (data ! j) of
             None \<Rightarrow> Inl NotANumber
           | Some v \<Rightarrow> Inr v))"

section \<open>Silhouette\<close>

definition sil_sum_count :: "Matrix \<Rightarrow> nat list \<Rightarrow> nat \<Rightarrow> (nat \<Rightarrow> bool) \<Rightarrow> real \<times> nat" where
  "sil_sum_count dmat labels i sel =
     fold (\<lambda>j (s, c). if sel j then (s + mget dmat i j, c + 1) else (s, c))
       [0..<length labels] (0, 0)"

text \<open>\<open>bi\<close> starts at \<^verbatim>\<open>Infinity\<close>, here \<open>None\<close>.\<close>

definition sil_b :: "Matrix \<Rightarrow> nat list \<Rightarrow> nat list \<Rightarrow> nat \<Rightarrow> real option" where
  "sil_b dmat labels uniqueClusters i =
     fold (\<lambda>c bi.
        if c = labels ! i then bi
        else
          (let (sumOther, countOther) = sil_sum_count dmat labels i (\<lambda>j. labels ! j = c)
           in if countOther > 0
              then (case bi of
                      None \<Rightarrow> Some (sumOther / real countOther)
                    | Some x \<Rightarrow> Some (min x (sumOther / real countOther)))
              else bi))
       uniqueClusters None"

text \<open>
  The term one observation adds to \<^verbatim>\<open>totalScore\<close>.  With \<open>bi\<close> still
  \<^verbatim>\<open>Infinity\<close> the quotient is \<^verbatim>\<open>NaN\<close>.
\<close>

definition sil_term :: "Matrix \<Rightarrow> nat list \<Rightarrow> nat list \<Rightarrow> nat \<Rightarrow> error + real" where
  "sil_term dmat labels uniqueClusters i =
     (let ci = labels ! i;
          (sumSame, countSame) = sil_sum_count dmat labels i (\<lambda>j. j \<noteq> i \<and> labels ! j = ci)
      in if countSame = 0 then Inr 0
         else
           (let ai = sumSame / real countSame
            in (case sil_b dmat labels uniqueClusters i of
                  None \<Rightarrow> Inl NotANumber
                | Some bi \<Rightarrow>
                    let maxAB = max ai bi
                    in Inr (if maxAB > 0 then (bi - ai) / maxAB else 0))))"

definition silhouetteScore :: "Matrix \<Rightarrow> nat list \<Rightarrow> error + real" where
  "silhouetteScore dmat labels =
     (let n = length labels;
          uniqueClusters = uniq labels
      in if length uniqueClusters < 2 then Inr 0
         else
           (case fold (\<lambda>i acc.
                    case acc of
                      Inl e \<Rightarrow> Inl e
                    | Inr totalScore \<Rightarrow>
                        (case sil_term dmat labels uniqueClusters i of
                           Inl e \<Rightarrow> Inl e
                         | Inr t \<Rightarrow> Inr (totalScore + t)))
                  [0..<n] (Inr 0) of
              Inl e \<Rightarrow> Inl e
            | Inr totalScore \<Rightarrow> Inr (totalScore / real n)))"

section \<open>PAM (partitioning around medoids)\<close>

subsection \<open>Build phase\<close>

definition pam_totalDists :: "Matrix \<Rightarrow> nat \<Rightarrow> real list" where
  "pam_totalDists dmat n = map (\<lambda>i. fold (\<lambda>j t. t + mget dmat i j) [0..<n] 0) [0..<n]"

definition pam_first :: "Matrix \<Rightarrow> nat \<Rightarrow> nat" where
  "pam_first dmat n =
     (let totalDists = pam_totalDists dmat n
      in fold (\<lambda>i bestIdx. if totalDists ! i \<le> totalDists ! bestIdx then i else bestIdx)
           [1..<n] 0)"

definition pam_gain :: "Matrix \<Rightarrow> nat \<Rightarrow> real list \<Rightarrow> nat \<Rightarrow> real" where
  "pam_gain dmat n nearestDist c =
     fold (\<lambda>i gain. gain + max 0 (nearestDist ! i - mget dmat i c)) [0..<n] 0"

text \<open>
  \<open>None\<close> is the initial state \<^verbatim>\<open>bestGain = -Infinity, bestCandidate = -1\<close>; every
  real gain passes \<^verbatim>\<open>gain >= -Infinity\<close>.
\<close>

definition pam_candidate :: "Matrix \<Rightarrow> nat \<Rightarrow> nat list \<Rightarrow> real list \<Rightarrow> (real \<times> nat) option" where
  "pam_candidate dmat n medoids nearestDist =
     fold (\<lambda>c best.
        if c \<in> set medoids then best
        else
          (let gain = pam_gain dmat n nearestDist c
           in (case best of
                 None \<Rightarrow> Some (gain, c)
               | Some (bestGain, bestCandidate) \<Rightarrow>
                   if gain \<ge> bestGain then Some (gain, c) else best)))
       [0..<n] None"

definition pam_build_step ::
  "Matrix \<Rightarrow> nat \<Rightarrow> error + nat list \<times> real list \<Rightarrow> error + nat list \<times> real list" where
  "pam_build_step dmat n st =
     (case st of
        Inl e \<Rightarrow> Inl e
      | Inr (medoids, nearestDist) \<Rightarrow>
          (case pam_candidate dmat n medoids nearestDist of
             None \<Rightarrow> Inl BadIndex
           | Some (bestGain, bestCandidate) \<Rightarrow>
               Inr (medoids @ [bestCandidate],
                    map (\<lambda>i. min (nearestDist ! i) (mget dmat i bestCandidate)) [0..<n])))"

definition pam_build :: "Matrix \<Rightarrow> nat \<Rightarrow> nat \<Rightarrow> error + nat list \<times> real list" where
  "pam_build dmat n k =
     (let bestIdx = pam_first dmat n
      in fold (\<lambda>m st. pam_build_step dmat n st) [1..<k]
           (Inr ([bestIdx], map (\<lambda>i. mget dmat i bestIdx) [0..<n])))"

subsection \<open>Swap phase\<close>

text \<open>\<open>minD\<close> starts at \<^verbatim>\<open>Infinity\<close>, here \<open>None\<close>; so does a cost that adds it.\<close>

definition pam_nearest :: "Matrix \<Rightarrow> nat \<Rightarrow> nat list \<Rightarrow> real option" where
  "pam_nearest dmat i ms =
     fold (\<lambda>m minD.
        case minD of
          None \<Rightarrow> Some (mget dmat i m)
        | Some x \<Rightarrow> Some (min x (mget dmat i m))) ms None"

definition pam_cost :: "Matrix \<Rightarrow> nat \<Rightarrow> nat list \<Rightarrow> real option" where
  "pam_cost dmat n ms =
     fold (\<lambda>i cost.
        case cost of
          None \<Rightarrow> None
        | Some c \<Rightarrow> (case pam_nearest dmat i ms of None \<Rightarrow> None | Some x \<Rightarrow> Some (c + x)))
       [0..<n] (Some 0)"

text \<open>
  One pass over all (slot, candidate) pairs.  \<open>None\<close> is the initial state
  \<^verbatim>\<open>bestChange = 0, bestMIdx = -1\<close>.  A trial whose cost is \<^verbatim>\<open>Infinity\<close> never
  passes \<^verbatim>\<open>change < bestChange\<close>.
\<close>

definition pam_swap_pass ::
  "Matrix \<Rightarrow> nat \<Rightarrow> nat \<Rightarrow> nat list \<Rightarrow> real \<Rightarrow> (real \<times> nat \<times> nat) option" where
  "pam_swap_pass dmat n k medoidsArr currentCost =
     fold (\<lambda>mIdx best.
        fold (\<lambda>c best.
           if c \<in> set medoidsArr then best
           else
             (let trial = medoidsArr[mIdx := c]
              in (case pam_cost dmat n trial of
                    None \<Rightarrow> best
                  | Some trialCost \<Rightarrow>
                      let change = trialCost - currentCost;
                          bestChange = (case best of None \<Rightarrow> 0 | Some (bc, bm, bs) \<Rightarrow> bc)
                      in if change < bestChange then Some (change, mIdx, c) else best)))
          [0..<n] best)
       [0..<k] None"

text \<open>
  The loop \<^verbatim>\<open>for (iter = 0; iter < 100; iter++)\<close>.  The second component of the
  result counts the passes that were started.
\<close>

function pam_swap ::
  "Matrix \<Rightarrow> nat \<Rightarrow> nat \<Rightarrow> nat \<Rightarrow> nat list \<Rightarrow> error + nat list \<times> nat" where
  "pam_swap dmat n k iter medoidsArr =
     (if iter < 100
      then (case pam_cost dmat n medoidsArr of
              None \<Rightarrow> Inl InfiniteCost
            | Some currentCost \<Rightarrow>
                (case pam_swap_pass dmat n k medoidsArr currentCost of
                   Some (bestChange, bestMIdx, bestSwap) \<Rightarrow>
                     pam_swap dmat n k (iter + 1) (medoidsArr[bestMIdx := bestSwap])
                 | None \<Rightarrow> Inr (medoidsArr, iter + 1)))
      else Inr (medoidsArr, iter))"
  by pat_completeness auto
termination
  by (relation "measure (\<lambda>(dmat, n, k, iter, medoidsArr). 100 - iter)") auto

declare pam_swap.simps [simp del]

subsection \<open>Final assignment\<close>

definition pam_assign :: "Matrix \<Rightarrow> nat \<Rightarrow> nat list \<Rightarrow> nat \<Rightarrow> nat" where
  "pam_assign dmat k sortedMedoids i =
     (let (minD, bestM) =
            fold (\<lambda>m (minD, bestM).
               let dv = mget dmat i (sortedMedoids ! m)
               in if (case minD of None \<Rightarrow> True | Some x \<Rightarrow> dv < x)
                  then (Some dv, m) else (minD, bestM))
              [0..<k] (None, 0)
      in bestM + 1)"

definition pam :: "Matrix \<Rightarrow> nat \<Rightarrow> error + nat list" where
  "pam dmat k =
     (let n = rows dmat
      in (case pam_build dmat n k of
            Inl e \<Rightarrow> Inl e
          | Inr (medoids, nearestDist) \<Rightarrow>
              (case pam_swap dmat n k 0 medoids of
                 Inl e \<Rightarrow> Inl e
               | Inr (medoidsArr, passes) \<Rightarrow>
                   let sortedMedoids = sort medoidsArr
                   in Inr (map (pam_assign dmat k sortedMedoids) [0..<n]))))"

section \<open>Hierarchical clustering (Lance-Williams)\<close>

definition lance_williams ::
  "string \<Rightarrow> real \<Rightarrow> real \<Rightarrow> real \<Rightarrow> real \<Rightarrow> real \<Rightarrow> real \<Rightarrow> real" where
  "lance_williams method ni nj nk dik djk dij =
     (if method = ''single'' then min dik djk
      else if method = ''complete'' then max dik djk
      else if method = ''mcquitty'' then (dik + djk) / 2
      else if method = ''median'' then (dik + djk) / 2 - dij / 4
      else if method = ''centroid''
        then (ni * dik + nj * djk) / (ni + nj) - (ni * nj * dij) / ((ni + nj) * (ni + nj))
      else if method = ''ward.D'' \<or> method = ''ward.D2''
        then ((ni + nk) * dik + (nj + nk) * djk - nk * dij) / (ni + nj + nk)
      else (ni * dik + nj * djk) / (ni + nj))"

text \<open>
  The scan for the closest pair of active clusters.  \<open>None\<close> is the initial state
  \<^verbatim>\<open>bestDist = Infinity, bestI = bestJ = -1\<close>.
\<close>

definition cp_cell ::
  "real list list \<Rightarrow> nat list \<Rightarrow> nat \<Rightarrow> nat \<Rightarrow> (real \<times> nat \<times> nat) option \<Rightarrow> (real \<times> nat \<times> nat) option" where
  "cp_cell d activeArr a b best =
     (let ci = activeArr ! a; cj = activeArr ! b
      in if (case best of None \<Rightarrow> True | Some (bestDist, bi, bj) \<Rightarrow> d ! ci ! cj < bestDist)
         then Some (d ! ci ! cj, ci, cj) else best)"

definition cp_row ::
  "real list list \<Rightarrow> nat list \<Rightarrow> nat \<Rightarrow> (real \<times> nat \<times> nat) option \<Rightarrow> (real \<times> nat \<times> nat) option" where
  "cp_row d activeArr a best = fold (cp_cell d activeArr a) [a + 1..<length activeArr] best"

definition closest_pair :: "real list list \<Rightarrow> nat list \<Rightarrow> (real \<times> nat \<times> nat) option" where
  "closest_pair d activeArr = fold (cp_row d activeArr) [0..<length activeArr] None"

record hstate =
  clusters :: "nat list list"
  active :: "nat list"
  sizes :: "nat list"
  dwork :: "real list list"

definition hier_update ::
  "string \<Rightarrow> nat list \<Rightarrow> nat list \<Rightarrow> nat \<Rightarrow> nat \<Rightarrow> real list list \<Rightarrow> real list list" where
  "hier_update method act sz bestI bestJ d =
     (let ni = real (sz ! bestI); nj = real (sz ! bestJ); dij = d ! bestI ! bestJ
      in fold (\<lambda>ck d.
            if ck = bestI \<or> ck = bestJ then d
            else
              (let nk = real (sz ! ck); dik = d ! bestI ! ck; djk = d ! bestJ ! ck;
                   newDist = lance_williams method ni nj nk dik djk dij
               in set2 (set2 d bestI ck newDist) ck bestI newDist))
           act d)"

definition hier_merge :: "string \<Rightarrow> hstate \<Rightarrow> nat \<Rightarrow> nat \<Rightarrow> hstate" where
  "hier_merge method st bestI bestJ =
     \<lparr> clusters = (clusters st)[bestI := clusters st ! bestI @ clusters st ! bestJ],
       active = removeAll bestJ (active st),
       sizes = (sizes st)[bestI := sizes st ! bestI + sizes st ! bestJ],
       dwork = hier_update method (active st) (sizes st) bestI bestJ (dwork st) \<rparr>"

definition cp_ok :: "nat list \<Rightarrow> (real \<times> nat \<times> nat) option \<Rightarrow> bool" where
  "cp_ok act best = (case best of None \<Rightarrow> True | Some (v, i, j) \<Rightarrow> i \<in> set act \<and> j \<in> set act)"

lemma cp_cell_ok: "cp_ok act best \<Longrightarrow> a < length act \<Longrightarrow> b < length act \<Longrightarrow> cp_ok act (cp_cell d act a b best)"
  by (simp add: cp_ok_def cp_cell_def Let_def)

lemma cp_cells_ok:
  "cp_ok act best \<Longrightarrow> a < length act \<Longrightarrow> set bs \<subseteq> {..<length act} \<Longrightarrow>
   cp_ok act (fold (cp_cell d act a) bs best)"
  by (induction bs arbitrary: best) (simp_all add: cp_cell_ok)

lemma cp_rows_ok:
  "cp_ok act best \<Longrightarrow> set as \<subseteq> {..<length act} \<Longrightarrow> cp_ok act (fold (cp_row d act) as best)"
proof (induction as arbitrary: best)
  case Nil
  then show ?case by simp
next
  case (Cons a as)
  have "cp_ok act (cp_row d act a best)"
    unfolding cp_row_def using Cons.prems by (intro cp_cells_ok) auto
  then show ?case using Cons by simp
qed

lemma closest_pair_mem:
  "closest_pair d act = Some (v, i, j) \<Longrightarrow> i \<in> set act \<and> j \<in> set act"
proof -
  have "cp_ok act (fold (cp_row d act) [0..<length act] None)"
    by (rule cp_rows_ok) (auto simp: cp_ok_def)
  then show "closest_pair d act = Some (v, i, j) \<Longrightarrow> i \<in> set act \<and> j \<in> set act"
    by (simp add: closest_pair_def cp_ok_def)
qed

text \<open>
  The loop \<^verbatim>\<open>while (active.size > k)\<close>.  When the scan finds no pair, \<^verbatim>\<open>bestI\<close> is
  \<open>-1\<close> and \<^verbatim>\<open>d[bestI]![bestJ]\<close> raises a TypeError.  The last argument counts the
  merge steps.
\<close>

function hier_loop :: "string \<Rightarrow> nat \<Rightarrow> hstate \<Rightarrow> nat \<Rightarrow> error + hstate \<times> nat" where
  "hier_loop method k st steps =
     (if length (active st) > k
      then (case closest_pair (dwork st) (active st) of
              None \<Rightarrow> Inl TypeError
            | Some (bestDist, bestI, bestJ) \<Rightarrow>
                hier_loop method k (hier_merge method st bestI bestJ) (steps + 1))
      else Inr (st, steps))"
  by pat_completeness auto
termination
proof (relation "measure (\<lambda>(method, k, st, steps). length (active st))", goal_cases)
  case 1
  show ?case by simp
next
  case (2 meth k st steps x2 bestDist y bestI bestJ)
  then have "bestJ \<in> set (active st)"
    using closest_pair_mem[of "dwork st" "active st" bestDist bestI bestJ] by simp
  then have "length (removeAll bestJ (active st)) < length (active st)"
    by (simp add: length_removeAll_less)
  then show ?case by (simp add: hier_merge_def)
qed

declare hier_loop.simps [simp del]

definition hier_assign :: "nat \<Rightarrow> hstate \<Rightarrow> nat list" where
  "hier_assign n st =
     fst (fold (\<lambda>ci (assignments, clusterIdx).
            (fold (\<lambda>point assignments. assignments[point := clusterIdx])
               (clusters st ! ci) assignments,
             clusterIdx + 1))
          (active st) (replicate n 0, 1))"

definition hier_init :: "Matrix \<Rightarrow> string \<Rightarrow> hstate" where
  "hier_init dmat method =
     (let n = rows dmat;
          d = map (\<lambda>i. map (\<lambda>j. mget dmat i j) [0..<n]) [0..<n]
      in \<lparr> clusters = map (\<lambda>i. [i]) [0..<n],
           active = [0..<n],
           sizes = replicate n 1,
           dwork = (if method = ''ward.D2'' then map (map (\<lambda>x. x * x)) d else d) \<rparr>)"

definition hierarchical :: "Matrix \<Rightarrow> nat \<Rightarrow> string \<Rightarrow> error + nat list" where
  "hierarchical dmat k method =
     (case hier_loop method k (hier_init dmat method) 0 of
        Inl e \<Rightarrow> Inl e
      | Inr (st, steps) \<Rightarrow> Inr (hier_assign (rows dmat) st))"

section \<open>Clustering facade\<close>

text \<open>
  The input \<^verbatim>\<open>SequenceData | TNAData | number[][]\<close>.  Of a prepared container only
  its \<^verbatim>\<open>sequenceData\<close> is read.
\<close>

datatype input =
    Sequences "string option list list"
  | Prepared "string option list list"
  | Numbers "real list list"

record options =
  opt_dissimilarity :: "string option"
  opt_method :: "string option"
  opt_naSyms :: "string list option"
  opt_weighted :: "bool option"
  opt_lambda :: "real option"

text \<open>\<^verbatim>\<open>options\<close> omitted: every field falls back to its default.\<close>

definition no_options :: options where
  "no_options = \<lparr> opt_dissimilarity = None, opt_method = None, opt_naSyms = None,
                  opt_weighted = None, opt_lambda = None \<rparr>"

text \<open>
  The cluster result, without the echo of the input rows (\<^verbatim>\<open>data\<close>), which no
  computation reads.
\<close>

record ClusterResult =
  res_k :: int
  assignments :: "nat list"
  silhouette :: real
  res_sizes :: "nat list"
  res_method :: string
  distance :: Matrix
  res_dissimilarity :: string

definition isNumericData :: "real list list \<Rightarrow> bool" where
  "isNumericData data =
     (if data = [] then False
      else (let firstRow = data ! 0 in length firstRow > 0))"

definition solve :: "Matrix \<Rightarrow> int \<Rightarrow> string \<Rightarrow> error + nat list" where
  "solve dmat k method =
     (if method = ''pam'' then pam dmat (nat k) else hierarchical dmat (nat k) method)"

definition count_sizes :: "int \<Rightarrow> nat list \<Rightarrow> nat list" where
  "count_sizes k asg = map (\<lambda>c. length (filter (\<lambda>a. a = c) asg)) [1..<nat k + 1]"

definition assemble ::
  "Matrix \<Rightarrow> int \<Rightarrow> string \<Rightarrow> string \<Rightarrow> error + ClusterResult" where
  "assemble dmat k method dissimilarity =
     (case solve dmat k method of
        Inl e \<Rightarrow> Inl e
      | Inr asg \<Rightarrow>
          (case silhouetteScore dmat asg of
             Inl e \<Rightarrow> Inl e
           | Inr sil \<Rightarrow>
               Inr \<lparr> res_k = k, assignments = asg, silhouette = sil,
                     res_sizes = count_sizes k asg, res_method = method,
                     distance = dmat, res_dissimilarity = dissimilarity \<rparr>))"

definition clusterStringData ::
  "jsval option list list \<Rightarrow> int \<Rightarrow> string \<Rightarrow> options \<Rightarrow> error + ClusterResult" where
  "clusterStringData seqData k method opts =
     (let dissimilarity = (case opt_dissimilarity opts of None \<Rightarrow> ''hamming'' | Some x \<Rightarrow> x);
          naSyms = (case opt_naSyms opts of None \<Rightarrow> [''*'', ''%''] | Some x \<Rightarrow> x);
          weighted = (case opt_weighted opts of None \<Rightarrow> False | Some x \<Rightarrow> x);
          lambda = (case opt_lambda opts of None \<Rightarrow> 1 | Some x \<Rightarrow> x)
      in if k < 2 then Inl KTooSmall
         else if k > int (length seqData) then Inl (KExceedsSequences k (length seqData))
         else
           (let sequences = toTokenLists seqData naSyms
            in (case computeDistanceMatrix sequences dissimilarity weighted lambda of
                  Inl e \<Rightarrow> Inl e
                | Inr dmat \<Rightarrow> assemble dmat k method dissimilarity)))"

definition as_strings :: "string option list list \<Rightarrow> jsval option list list" where
  "as_strings data = map (map (map_option JStr)) data"

text \<open>\<^verbatim>\<open>data as SequenceData\<close> on rows of numbers: the cells stay numbers.\<close>

definition as_numbers :: "real list list \<Rightarrow> jsval option list list" where
  "as_numbers data = map (map (\<lambda>v. Some (JNum v))) data"

definition clusterData :: "input \<Rightarrow> int \<Rightarrow> options \<Rightarrow> error + ClusterResult" where
  "clusterData data k opts =
     (let method = (case opt_method opts of None \<Rightarrow> ''pam'' | Some x \<Rightarrow> x)
      in (case data of
            Prepared seqData \<Rightarrow> clusterStringData (as_strings seqData) k method opts
          | Numbers rws \<Rightarrow>
              if isNumericData rws
              then
                (let dissimilarity =
                       (case opt_dissimilarity opts of None \<Rightarrow> ''euclidean'' | Some x \<Rightarrow> x)
                 in if k < 2 then Inl KTooSmall
                    else if k > int (length rws)
                      then Inl (KExceedsObservations k (length rws))
                    else
                      (case computeNumericDistanceMatrix rws dissimilarity of
                         Inl e \<Rightarrow> Inl e
                       | Inr dmat \<Rightarrow> assemble dmat k method dissimilarity))
              else clusterStringData (as_numbers rws) k method opts
          | Sequences seqData \<Rightarrow> clusterStringData (as_strings seqData) k method opts))"

definition clusterSequences :: "input \<Rightarrow> int \<Rightarrow> options \<Rightarrow> error + ClusterResult" where
  "clusterSequences data k opts = clusterData data k opts"

section \<open>Validation of k and the errors of the facade\<close>

definition is_k_error :: "error \<Rightarrow> bool" where
  "is_k_error e = (case e of KTooSmall \<Rightarrow> True | KExceedsObservations k n \<Rightarrow> True
                    | KExceedsSequences k n \<Rightarrow> True | _ \<Rightarrow> False)"

text \<open>The number of observations \<open>n\<close>: the rows of the input.\<close>

definition input_size :: "input \<Rightarrow> nat" where
  "input_size data =
     (case data of Sequences s \<Rightarrow> length s | Prepared s \<Rightarrow> length s | Numbers r \<Rightarrow> length r)"

text \<open>Whether the call takes the numeric path.\<close>

definition numeric_path :: "input \<Rightarrow> bool" where
  "numeric_path data = (case data of Numbers r \<Rightarrow> isNumericData r | _ \<Rightarrow> False)"

lemma fill_cell_err: "fill_cell f i j acc = Inl e \<Longrightarrow> acc = Inl e \<or> f i j = Inl e"
  by (auto simp: fill_cell_def split: sum.splits)

lemma fill_row_err: "fill_row n f i acc = Inl e \<Longrightarrow> acc = Inl e \<or> (\<exists>j. f i j = Inl e)"
proof -
  have "fold (fill_cell f i) js acc = Inl e \<Longrightarrow> acc = Inl e \<or> (\<exists>j. f i j = Inl e)" for js
  proof (induction js arbitrary: acc)
    case Nil then show ?case by simp
  next
    case (Cons j js)
    from Cons.IH[of "fill_cell f i j acc"] Cons.prems fill_cell_err show ?case
      by fastforce
  qed
  then show "fill_row n f i acc = Inl e \<Longrightarrow> acc = Inl e \<or> (\<exists>j. f i j = Inl e)"
    by (simp add: fill_row_def)
qed

lemma fill_pairs_err: "fill_pairs n f = Inl e \<Longrightarrow> \<exists>i j. f i j = Inl e"
proof -
  have "fold (fill_row n f) is acc = Inl e \<Longrightarrow> acc = Inl e \<or> (\<exists>i j. f i j = Inl e)" for "is" acc
  proof (induction "is" arbitrary: acc)
    case Nil then show ?case by simp
  next
    case (Cons i "is")
    from Cons.IH[of "fill_row n f i acc"] Cons.prems fill_row_err show ?case
      by fastforce
  qed
  from this[of "[0..<n]" "Inr (Matrix_zeros n n)"]
  show "fill_pairs n f = Inl e \<Longrightarrow> \<exists>i j. f i j = Inl e"
    by (simp add: fill_pairs_def)
qed

lemma computeDistanceMatrix_err:
  "computeDistanceMatrix s name w l = Inl e \<Longrightarrow> \<not> is_k_error e"
  unfolding computeDistanceMatrix_def Let_def
  by (auto simp: is_k_error_def split: if_splits option.splits dest!: fill_pairs_err)

lemma computeNumericDistanceMatrix_err:
  "computeNumericDistanceMatrix s name = Inl e \<Longrightarrow> \<not> is_k_error e"
  unfolding computeNumericDistanceMatrix_def Let_def
  by (auto simp: is_k_error_def split: if_splits option.splits dest!: fill_pairs_err)

lemma pam_build_err: "pam_build dmat n k = Inl e \<Longrightarrow> e = BadIndex"
proof -
  have step: "\<And>st. pam_build_step dmat n st = Inl e \<Longrightarrow> st = Inl e \<or> e = BadIndex"
    by (auto simp: pam_build_step_def split: sum.splits option.splits prod.splits)
  have "fold (\<lambda>m st. pam_build_step dmat n st) ms st = Inl e \<Longrightarrow> st = Inl e \<or> e = BadIndex" for ms :: "nat list" and st
  proof (induction ms arbitrary: st)
    case Nil then show ?case by simp
  next
    case (Cons m ms)
    from Cons.IH[OF Cons.prems[simplified]] step show ?case by blast
  qed
  then show "pam_build dmat n k = Inl e \<Longrightarrow> e = BadIndex"
    unfolding pam_build_def Let_def by blast
qed

lemma pam_swap_err: "pam_swap dmat n k iter ms = Inl e \<Longrightarrow> e = InfiniteCost"
proof (induction dmat n k iter ms rule: pam_swap.induct)
  case (1 dmat n k iter medoidsArr)
  show ?case
  proof (cases "iter < 100")
    case False
    with "1.prems" show ?thesis by (simp add: pam_swap.simps)
  next
    case True
    show ?thesis
    proof (cases "pam_cost dmat n medoidsArr")
      case None
      with True "1.prems" show ?thesis by (simp add: pam_swap.simps)
    next
      case (Some currentCost)
      show ?thesis
      proof (cases "pam_swap_pass dmat n k medoidsArr currentCost")
        case None
        with True Some "1.prems" show ?thesis by (simp add: pam_swap.simps)
      next
        case (Some best)
        obtain bestChange bestMIdx bestSwap where best: "best = (bestChange, bestMIdx, bestSwap)"
          by (cases best) auto
        have "pam_swap dmat n k (iter + 1) (medoidsArr[bestMIdx := bestSwap]) = Inl e"
          using True \<open>pam_cost dmat n medoidsArr = Some currentCost\<close> Some best "1.prems"
          by (simp add: pam_swap.simps)
        then show ?thesis
          using "1.IH"[OF True \<open>pam_cost dmat n medoidsArr = Some currentCost\<close> Some best[symmetric]]
          by simp
      qed
    qed
  qed
qed

lemma pam_err: "pam dmat k = Inl e \<Longrightarrow> \<not> is_k_error e"
proof -
  assume a: "pam dmat k = Inl e"
  have "e = BadIndex \<or> e = InfiniteCost"
  proof (cases "pam_build dmat (rows dmat) k")
    case (Inl e')
    with a pam_build_err[of dmat "rows dmat" k e'] show ?thesis
      by (simp add: pam_def Let_def)
  next
    case (Inr st)
    obtain medoids nearestDist where st: "st = (medoids, nearestDist)" by (cases st) auto
    show ?thesis
    proof (cases "pam_swap dmat (rows dmat) k 0 medoids")
      case (Inl e')
      with a Inr st pam_swap_err[of dmat "rows dmat" k 0 medoids e'] show ?thesis
        by (simp add: pam_def Let_def)
    next
      case (Inr r)
      with a \<open>pam_build dmat (rows dmat) k = Inr st\<close> st show ?thesis
        by (simp add: pam_def Let_def split: prod.splits)
    qed
  qed
  then show "\<not> is_k_error e" by (auto simp: is_k_error_def)
qed

lemma hier_loop_err: "hier_loop meth k st steps = Inl e \<Longrightarrow> e = TypeError"
proof (induction meth k st steps rule: hier_loop.induct)
  case (1 meth k st steps)
  show ?case
  proof (cases "length (active st) > k")
    case False
    with "1.prems" show ?thesis by (simp add: hier_loop.simps)
  next
    case True
    show ?thesis
    proof (cases "closest_pair (dwork st) (active st)")
      case None
      with True "1.prems" show ?thesis by (simp add: hier_loop.simps)
    next
      case (Some best)
      obtain bestDist bestI bestJ where best: "best = (bestDist, bestI, bestJ)"
        by (cases best) auto
      have "hier_loop meth k (hier_merge meth st bestI bestJ) (steps + 1) = Inl e"
        using True Some best "1.prems" by (simp add: hier_loop.simps)
      then show ?thesis
        using "1.IH"[OF True Some best[symmetric] refl] by simp
    qed
  qed
qed

lemma hierarchical_err: "hierarchical dmat k meth = Inl e \<Longrightarrow> \<not> is_k_error e"
proof -
  assume a: "hierarchical dmat k meth = Inl e"
  have "e = TypeError"
  proof (cases "hier_loop meth k (hier_init dmat meth) 0")
    case (Inl e')
    with a hier_loop_err[of meth k "hier_init dmat meth" 0 e'] show ?thesis
      by (simp add: hierarchical_def)
  next
    case (Inr r)
    with a show ?thesis by (simp add: hierarchical_def split: prod.splits)
  qed
  then show "\<not> is_k_error e" by (simp add: is_k_error_def)
qed

lemma sil_term_err: "sil_term dmat labels u i = Inl e \<Longrightarrow> e = NotANumber"
  unfolding sil_term_def Let_def
  by (auto split: prod.splits if_splits option.splits)

lemma silhouetteScore_err: "silhouetteScore dmat labels = Inl e \<Longrightarrow> e = NotANumber"
proof -
  have "fold (\<lambda>i acc. case acc of Inl e \<Rightarrow> Inl e
                    | Inr totalScore \<Rightarrow>
                        (case sil_term dmat labels u i of
                           Inl e \<Rightarrow> Inl e
                         | Inr t \<Rightarrow> Inr (totalScore + t))) xs acc = Inl e \<Longrightarrow> acc = Inl e \<or> e = NotANumber" for xs acc u
  proof (induction xs arbitrary: acc)
    case Nil then show ?case by simp
  next
    case (Cons x xs)
    from Cons.IH[OF Cons.prems[simplified]] show ?case
      by (auto split: sum.splits dest: sil_term_err)
  qed
  then show "silhouetteScore dmat labels = Inl e \<Longrightarrow> e = NotANumber"
    unfolding silhouetteScore_def Let_def
    by (fastforce split: if_splits sum.splits)
qed

lemma assemble_err: "assemble dmat k method ds = Inl e \<Longrightarrow> \<not> is_k_error e"
  unfolding assemble_def solve_def
  by (auto simp: is_k_error_def split: sum.splits if_splits dest: pam_err hierarchical_err silhouetteScore_err)

lemma clusterStringData_k_small: "k < 2 \<Longrightarrow> clusterStringData s k m opts = Inl KTooSmall"
  by (simp add: clusterStringData_def Let_def)

lemma clusterStringData_k_large:
  "2 \<le> k \<Longrightarrow> k > int (length s) \<Longrightarrow> clusterStringData s k m opts = Inl (KExceedsSequences k (length s))"
  by (simp add: clusterStringData_def Let_def)

lemma clusterStringData_k_ok:
  "2 \<le> k \<Longrightarrow> k \<le> int (length s) \<Longrightarrow> clusterStringData s k m opts = Inl e \<Longrightarrow> \<not> is_k_error e"
  unfolding clusterStringData_def Let_def
  by (auto split: sum.splits dest: computeDistanceMatrix_err assemble_err)

text \<open>
  C8.  \<^verbatim>\<open>clusterData\<close> and \<^verbatim>\<open>clusterSequences\<close> fail whenever \<open>k < 2\<close> or
  \<open>k > n\<close>.  The failure is the k error itself whatever the options are (also for a
  dissimilarity name or rows on which the distance computation would fail), so it is
  raised before any distance is computed and no result is returned.  With
  \<open>2 \<le> k \<le> n\<close> no failure of the call is a k error.
\<close>

theorem clusterData_validates_k:
  "(k < 2 \<longrightarrow> clusterData data k opts = Inl KTooSmall) \<and>
   (2 \<le> k \<and> k > int (input_size data) \<longrightarrow>
      clusterData data k opts =
        Inl (if numeric_path data then KExceedsObservations k (input_size data)
             else KExceedsSequences k (input_size data))) \<and>
   (2 \<le> k \<and> k \<le> int (input_size data) \<longrightarrow>
      (\<forall>e. clusterData data k opts = Inl e \<longrightarrow> \<not> is_k_error e)) \<and>
   clusterSequences data k opts = clusterData data k opts"
proof (intro conjI impI allI)
  assume "k < 2"
  then show "clusterData data k opts = Inl KTooSmall"
    by (simp add: clusterData_def Let_def clusterStringData_k_small split: input.splits)
next
  assume "2 \<le> k \<and> k > int (input_size data)"
  then show "clusterData data k opts =
        Inl (if numeric_path data then KExceedsObservations k (input_size data)
             else KExceedsSequences k (input_size data))"
    by (auto simp add: clusterData_def Let_def clusterStringData_k_large input_size_def
        numeric_path_def as_strings_def as_numbers_def split: input.splits)
next
  fix e
  assume k: "2 \<le> k \<and> k \<le> int (input_size data)" and e: "clusterData data k opts = Inl e"
  show "\<not> is_k_error e"
  proof (cases data)
    case (Sequences s)
    with k e show ?thesis
      using clusterStringData_k_ok[of k "as_strings s"]
      by (simp add: clusterData_def Let_def input_size_def as_strings_def)
  next
    case (Prepared s)
    with k e show ?thesis
      using clusterStringData_k_ok[of k "as_strings s"]
      by (simp add: clusterData_def Let_def input_size_def as_strings_def)
  next
    case (Numbers r)
    show ?thesis
    proof (cases "isNumericData r")
      case True
      with Numbers k e show ?thesis
        by (auto simp add: clusterData_def Let_def input_size_def split: sum.splits
            dest: computeNumericDistanceMatrix_err assemble_err)
    next
      case False
      with Numbers k e show ?thesis
        using clusterStringData_k_ok[of k "as_numbers r"]
        by (simp add: clusterData_def Let_def input_size_def as_numbers_def)
    qed
  qed
next
  show "clusterSequences data k opts = clusterData data k opts"
    by (simp add: clusterSequences_def)
qed

theorem clusterData_validates_k_witness:
  "clusterData (Sequences [[Some ''A''], [Some ''B'']]) 1 no_options = Inl KTooSmall \<and>
   clusterData (Numbers [[1], [2]]) 5 no_options = Inl (KExceedsObservations 5 2) \<and>
   clusterData (Sequences [[Some ''A''], [Some ''B'']]) 2
      (no_options\<lparr>opt_dissimilarity := Some ''bogus''\<rparr>) = Inl (UnknownDissimilarity ''bogus'') \<and>
   \<not> is_k_error (UnknownDissimilarity ''bogus'')"
proof -
  have a: "clusterData (Sequences [[Some ''A''], [Some ''B'']]) 1 no_options = Inl KTooSmall"
    using clusterData_validates_k[of 1 "Sequences [[Some ''A''], [Some ''B'']]" no_options]
    by simp
  have b: "clusterData (Numbers [[1], [2]]) 5 no_options = Inl (KExceedsObservations 5 2)"
    using clusterData_validates_k[of 5 "Numbers [[1], [2]]" no_options]
    by (simp add: input_size_def numeric_path_def isNumericData_def)
  have c: "clusterData (Sequences [[Some ''A''], [Some ''B'']]) 2
      (no_options\<lparr>opt_dissimilarity := Some ''bogus''\<rparr>) = Inl (UnknownDissimilarity ''bogus'')"
    by code_simp
  have d: "\<not> is_k_error (UnknownDissimilarity ''bogus'')"
    using c clusterData_validates_k[of 2 "Sequences [[Some ''A''], [Some ''B'']]"
        "no_options\<lparr>opt_dissimilarity := Some ''bogus''\<rparr>"]
    by (simp add: input_size_def)
  show ?thesis using a b c d by simp
qed

text \<open>
  C10.  An empty dataset (no sequences, an empty prepared container, or no numeric rows)
  with \<open>k \<ge> 2\<close> fails with the error of the bound check \<open>k > n\<close>, whatever the options:
  an empty array is not numeric data, so the call reaches the check of the sequence path,
  \<^verbatim>\<open>k=... exceeds number of sequences (0)\<close>, and no distance is computed.
\<close>

theorem clusterData_empty_dataset:
  "2 \<le> k \<Longrightarrow>
     \<not> isNumericData [] \<and>
     clusterData (Numbers []) k opts = Inl (KExceedsSequences k 0) \<and>
     clusterData (Sequences []) k opts = Inl (KExceedsSequences k 0) \<and>
     clusterData (Prepared []) k opts = Inl (KExceedsSequences k 0)"
  using clusterStringData_k_large[of k "[]"]
  by (simp add: clusterData_def Let_def isNumericData_def as_strings_def as_numbers_def)

theorem clusterData_empty_dataset_witness:
  "(2::int) \<le> 3 \<and> \<not> isNumericData [] \<and>
   clusterData (Numbers []) 3 no_options = Inl (KExceedsSequences 3 0) \<and>
   clusterData (Sequences []) 3 (no_options\<lparr>opt_dissimilarity := Some ''bogus''\<rparr>)
     = Inl (KExceedsSequences 3 0) \<and>
   clusterData (Prepared []) 3 no_options = Inl (KExceedsSequences 3 0)"
  using clusterData_empty_dataset[of 3 no_options]
    clusterData_empty_dataset[of 3 "no_options\<lparr>opt_dissimilarity := Some ''bogus''\<rparr>"]
  by simp

end
